theory Spec2Isabelle
  imports Complex_Main "HOL-Library.AList"
begin

section \<open>JavaScript values that reach the cache\<close>

text \<open>
  A JavaScript number is either \<open>NaN\<close> or a finite value; finite doubles are taken as
  reals, so rounding of the binary representation is not part of the model, and the two
  infinities are left out. The TTL argument of \<open>set\<close> is declared \<open>ttl?: number\<close> and the
  stored default is \<open>number | null\<close>, so the values handed to \<open>Number(val)\<close> are
  \<open>undefined\<close>, \<open>null\<close> and numbers.
\<close>

datatype number = NaN | Num real

datatype jsval = Undefined | Null | JNumber number

text \<open>\<open>Number(val)\<close> of ECMAScript: \<open>undefined\<close> gives \<open>NaN\<close>, \<open>null\<close> gives \<open>0\<close>.\<close>

fun Number_of :: "jsval \<Rightarrow> number" where
  "Number_of Undefined = NaN"
| "Number_of Null = Num 0"
| "Number_of (JNumber n) = n"

fun isNaN :: "number \<Rightarrow> bool" where
  "isNaN NaN = True"
| "isNaN (Num r) = False"

text \<open>
  \<open>function to_num(val) { return !isNaN(Number(val)) ? Number(val) : 0; }\<close>
  The result is never \<open>NaN\<close>, so it is given as a real.
\<close>

definition to_num :: "jsval \<Rightarrow> real" where
  "to_num v = (if \<not> isNaN (Number_of v) then (case Number_of v of Num r \<Rightarrow> r | NaN \<Rightarrow> 0) else 0)"

text \<open>
  A \<open>Date\<close> is its time value, whole milliseconds since the epoch. \<open>new Date(t)\<close> clips a
  fractional time value towards zero.
\<close>

definition TimeClip :: "real \<Rightarrow> int" where
  "TimeClip x = (if 0 \<le> x then \<lfloor>x\<rfloor> else \<lceil>x\<rceil>)"

text \<open>\<open>dayjs().add(ttl, "seconds").toDate()\<close> with the clock reading \<open>now\<close>.\<close>

definition add_seconds :: "int \<Rightarrow> real \<Rightarrow> int" where
  "add_seconds now t = TimeClip (of_int now + t * 1000)"

text \<open>
  Every operation reads the clock when it runs. The reading is the argument \<open>now\<close>, in
  milliseconds; one operation sees one reading.
\<close>

section \<open>The persistent store\<close>

text \<open>
  The values a caller stores are declared \<open>any\<close>. They are \<open>undefined\<close>, \<open>null\<close>,
  booleans, numbers, strings, and objects or arrays, the last given by a handle. An object
  that carries a property \<open>expires\<close> or \<open>value\<close> of its own is outside the model.
\<close>

datatype payload =
  VUndefined | VNull | VBoolean bool | VNumber number | VString string | VObject nat

fun truthy_payload :: "payload \<Rightarrow> bool" where
  "truthy_payload VUndefined = False"
| "truthy_payload VNull = False"
| "truthy_payload (VBoolean b) = b"
| "truthy_payload (VNumber NaN) = False"
| "truthy_payload (VNumber (Num r)) = (r \<noteq> 0)"
| "truthy_payload (VString s) = (s \<noteq> [])"
| "truthy_payload (VObject h) = True"

text \<open>
  The envelope \<open>{expires, value}\<close> that \<open>set\<close> writes; \<open>expires\<close> is a \<open>Date\<close> or
  \<open>null\<close>.
\<close>

record entry =
  expires :: "int option"
  "value" :: payload

text \<open>
  What the store holds under a key: an envelope, or a bare value once \<open>all\<close> has written
  \<open>data[key] = data[key].value\<close> into it.
\<close>

datatype slot = Envelope entry | Raw payload

text \<open>
  Reading a property of \<open>null\<close> or \<open>undefined\<close> throws a \<open>TypeError\<close>. On any other
  bare value the properties \<open>expires\<close> and \<open>value\<close> are \<open>undefined\<close>; as \<open>expires\<close> that is
  \<open>None\<close>, falsy like \<open>null\<close>.
\<close>

datatype error = TypeError

fun nullish :: "slot \<Rightarrow> bool" where
  "nullish (Raw VUndefined) = True"
| "nullish (Raw VNull) = True"
| "nullish (Raw (VBoolean b)) = False"
| "nullish (Raw (VNumber n)) = False"
| "nullish (Raw (VString s)) = False"
| "nullish (Raw (VObject h)) = False"
| "nullish (Envelope e) = False"

fun truthy_slot :: "slot \<Rightarrow> bool" where
  "truthy_slot (Envelope e) = True"
| "truthy_slot (Raw x) = truthy_payload x"

fun expires_of :: "slot \<Rightarrow> int option" where
  "expires_of (Envelope e) = expires e"
| "expires_of (Raw x) = None"

fun value_of :: "slot \<Rightarrow> payload" where
  "value_of (Envelope e) = value e"
| "value_of (Raw x) = VUndefined"

text \<open>
  Modelled from the spec: the persisted key-value store behind \<open>flatCache.load\<close> is a
  library that is not part of the sources. Section 6 of the specification gives the contract
  of three operations: \<open>getEntry\<close> returns what is stored or \<open>undefined\<close>, \<open>setEntry\<close>
  overwrites, \<open>removeEntry\<close> returns true if a key was present and removed. The fourth,
  \<open>all\<close>, hands out the object in which the store keeps its keys, not a copy of it, and
  neither \<open>all\<close> of the cache takes one: what the loop of \<open>all\<close> writes into \<open>data\<close> it
  writes into the store. The object is an association list in insertion order; a JavaScript
  object holds every key once, which is the invariant \<open>wf_store\<close>. Only the state in
  memory is modelled: writing the file and reading it back are the library's.
\<close>

type_synonym store = "(string \<times> slot) list"

definition wf_store :: "store \<Rightarrow> bool" where
  "wf_store s = distinct (map fst s)"

definition getKey :: "string \<Rightarrow> store \<Rightarrow> slot option" where
  "getKey key s = map_of s key"

definition setKey :: "string \<Rightarrow> slot \<Rightarrow> store \<Rightarrow> store" where
  "setKey key data s = AList.update key data s"

definition removeKey :: "string \<Rightarrow> store \<Rightarrow> bool \<times> store" where
  "removeKey key s = (map_of s key \<noteq> None, AList.delete key s)"

definition allEntries :: "store \<Rightarrow> store" where
  "allEntries s = s"

section \<open>The cache of \<open>src/index.ts\<close>\<close>

record Cache =
  dir :: string
  ns :: string
  defaultTTL :: "real option"
  cache :: store

text \<open>
  \<open>isExpired\<close> returns a boolean or, with \<open>returnTTL\<close>, the string of
  \<open>dayjs.duration(exp.diff(now)).humanize(true)\<close>. The wording of that string belongs to the
  dayjs library; \<open>humanize\<close> is the function from the difference in milliseconds to the
  string. \<open>now.isAfter(exp)\<close> compares the two time values with \<open>>\<close>.
\<close>

datatype bool_or_string = JBool bool | JString string

fun truthy :: "bool_or_string \<Rightarrow> bool" where
  "truthy (JBool b) = b"
| "truthy (JString s) = (s \<noteq> [])"

fun isExpired :: "(int \<Rightarrow> string) \<Rightarrow> int \<Rightarrow> int option \<Rightarrow> bool \<Rightarrow> bool_or_string" where
  "isExpired humanize now (Some ex) returnTTL =
     (if returnTTL then JString (humanize (ex - now)) else JBool (now > ex))"
| "isExpired humanize now None returnTTL = JBool False"

text \<open>The cast \<open><string>this.isExpired(data.expires, true)\<close>.\<close>

fun as_string :: "bool_or_string \<Rightarrow> string" where
  "as_string (JString s) = s"
| "as_string (JBool b) = []"

text \<open>
  \<open>invalidateKey\<close>: the result is the remaining TTL as a string, or \<open>None\<close> for
  \<open>null\<close>; the second component is the cache after the call. The guard
  \<open>data && data.expires\<close> reads \<open>expires\<close> of a truthy \<open>data\<close> only.
\<close>

definition invalidateKey :: "(int \<Rightarrow> string) \<Rightarrow> int \<Rightarrow> string \<Rightarrow> Cache \<Rightarrow> string option \<times> Cache" where
  "invalidateKey humanize now key c =
     (case getKey key (cache c) of
        None \<Rightarrow> (None, c)
      | Some data \<Rightarrow>
          if \<not> truthy_slot data then (None, c)
          else (case expires_of data of
             None \<Rightarrow> (None, c)
           | Some ex \<Rightarrow>
               if truthy (isExpired humanize now (Some ex) False)
               then (None, c\<lparr>cache := snd (removeKey key (cache c))\<rparr>)
               else (let remainingTTL = as_string (isExpired humanize now (Some ex) True)
                     in (if remainingTTL \<noteq> [] then Some remainingTTL else None, c))))"

text \<open>
  \<open>all\<close>: \<open>Object.keys(data).forEach\<close> visits the keys that \<open>data\<close> had when the call
  began. \<open>data\<close> is the object of the store, so the loop carries one object. Reading
  \<open>data[key].expires\<close> throws when \<open>data[key]\<close> is \<open>null\<close> or \<open>undefined\<close>, and the loop
  stops there with what it has written so far. For an expired key \<open>delete data[key]\<close> is
  followed by \<open>removeKey\<close>; for any other key the slot is overwritten with its \<open>value\<close>
  property. The first component of the loop's result is the error, if one was thrown.
\<close>

fun all_loop :: "(int \<Rightarrow> string) \<Rightarrow> int \<Rightarrow> string list \<Rightarrow> store \<Rightarrow> error option \<times> store" where
  "all_loop humanize now [] data = (None, data)"
| "all_loop humanize now (key # rest) data =
     (case map_of data key of
        None \<Rightarrow> (Some TypeError, data)
      | Some d \<Rightarrow>
          if nullish d then (Some TypeError, data)
          else if truthy (isExpired humanize now (expires_of d) False)
          then all_loop humanize now rest (snd (removeKey key (AList.delete key data)))
          else all_loop humanize now rest (AList.update key (Raw (value_of d)) data))"

text \<open>
  \<open>all\<close> returns \<open>data\<close>, the object of the store as the loop left it, or throws.
\<close>

definition Cache_all :: "(int \<Rightarrow> string) \<Rightarrow> int \<Rightarrow> Cache \<Rightarrow> (error + store) \<times> Cache" where
  "Cache_all humanize now c =
     (let data = allEntries (cache c);
          (err, data') = all_loop humanize now (map fst data) data
      in (case err of Some e \<Rightarrow> Inl e | None \<Rightarrow> Inr data', c\<lparr>cache := data'\<rparr>))"

text \<open>\<open>get\<close>: \<open>return data ? data.value : null\<close>.\<close>

definition Cache_get :: "(int \<Rightarrow> string) \<Rightarrow> int \<Rightarrow> string \<Rightarrow> Cache \<Rightarrow> payload \<times> Cache" where
  "Cache_get humanize now key c =
     (let c' = snd (invalidateKey humanize now key c);
          data = getKey key (cache c')
      in (case data of
            Some d \<Rightarrow> if truthy_slot d then value_of d else VNull
          | None \<Rightarrow> VNull, c'))"

text \<open>
  \<open>del\<close> is declared \<open>void\<close>: the result of \<open>removeKey\<close> is dropped and the caller
  receives \<open>undefined\<close>, which is \<open>None\<close> here.
\<close>

definition Cache_del :: "string \<Rightarrow> Cache \<Rightarrow> bool option \<times> Cache" where
  "Cache_del key c = (None, c\<lparr>cache := snd (removeKey key (cache c))\<rparr>)"

record ttl_result =
  ttl_key :: string
  ttl_expires :: "string option"

definition Cache_ttl :: "(int \<Rightarrow> string) \<Rightarrow> int \<Rightarrow> string \<Rightarrow> Cache \<Rightarrow> ttl_result \<times> Cache" where
  "Cache_ttl humanize now key c =
     (let (r, c') = invalidateKey humanize now key c
      in (\<lparr>ttl_key = key, ttl_expires = r\<rparr>, c'))"

text \<open>
  \<open>set\<close>: \<open>a || b\<close> is \<open>b\<close> when \<open>a\<close> is \<open>0\<close>, and \<open>effectiveTTL ? ... : null\<close> stores no
  expiry for \<open>0\<close>.
\<close>

definition null_or :: "real option \<Rightarrow> jsval" where
  "null_or d = (case d of None \<Rightarrow> Null | Some r \<Rightarrow> JNumber (Num r))"

definition effectiveTTL :: "jsval \<Rightarrow> real option \<Rightarrow> real" where
  "effectiveTTL ttl dflt = (if to_num ttl \<noteq> 0 then to_num ttl else to_num (null_or dflt))"

definition Cache_set :: "int \<Rightarrow> string \<Rightarrow> payload \<Rightarrow> jsval \<Rightarrow> Cache \<Rightarrow> Cache" where
  "Cache_set now key v ttl c =
     (let eff = effectiveTTL ttl (defaultTTL c);
          data = \<lparr>expires = (if eff \<noteq> 0 then Some (add_seconds now eff) else None), value = v\<rparr>
      in c\<lparr>cache := setKey key (Envelope data) (cache c)\<rparr>)"

section \<open>Construction\<close>


text \<open>
  The constructor consults the file system and Node's \<open>path\<close> and \<open>os\<close> modules, and
  loads the store through \<open>flatCache.load(ns, dir)\<close>. These are the fields of the
  environment; \<open>join\<close> receives the segments of \<open>path.join\<close> in order.
\<close>

record Env =
  existsSync :: "string \<Rightarrow> bool"
  dirname :: "string \<Rightarrow> string"
  join :: "string list \<Rightarrow> string"
  tmpdir :: string
  load :: "string \<Rightarrow> string \<Rightarrow> store"

text \<open>\<open>interface CacheOptions { ns?: string; dir?: string; ttl?: number; }\<close>, \<open>None\<close> for a
  field that is absent.\<close>

record CacheOptions =
  opt_ns :: "string option"
  opt_dir :: "string option"
  opt_ttl :: "number option"

definition option_number :: "number option \<Rightarrow> jsval" where
  "option_number t = (case t of None \<Rightarrow> Undefined | Some n \<Rightarrow> JNumber n)"

text \<open>
  \<open>const cacheDir = dir && fs.existsSync(path.dirname(dir)) ? dir : path.join(os.tmpdir(), "cache", ns)\<close>:
  an absent \<open>dir\<close> and the empty string are falsy.
\<close>

definition cacheDir :: "Env \<Rightarrow> string \<Rightarrow> string option \<Rightarrow> string" where
  "cacheDir env nsp d =
     (case d of
        None \<Rightarrow> join env [tmpdir env, ''cache'', nsp]
      | Some p \<Rightarrow> if p \<noteq> [] \<and> existsSync env (dirname env p) then p
                  else join env [tmpdir env, ''cache'', nsp])"

definition Cache_constructor :: "Env \<Rightarrow> CacheOptions \<Rightarrow> Cache" where
  "Cache_constructor env options =
     (let nsp = (case opt_ns options of None \<Rightarrow> ''default'' | Some n \<Rightarrow> n);
          cd = cacheDir env nsp (opt_dir options);
          t = Number_of (option_number (opt_ttl options))
      in \<lparr>dir = cd, ns = nsp,
          defaultTTL = (case t of NaN \<Rightarrow> None | Num r \<Rightarrow> Some r),
          cache = load env nsp cd\<rparr>)"

section \<open>The older JavaScript module\<close>

text \<open>
  The sources hold a second \<open>Cache\<close> class, the plain JavaScript module that ends in
  \<open>module.exports = (options = {}) => new Cache(options)\<close>. Its \<open>__isExpired\<close>,
  \<open>set\<close> and \<open>to_num\<close> are those of \<open>src/index.ts\<close> word for word; its constructor,
  \<open>all\<close> and \<open>del\<close> differ and carry the suffix \<open>_js\<close>. The object has no \<open>dir\<close>
  field: the directory is the variable the closures \<open>clearAll\<close> and \<open>clearCacheById\<close>
  capture, kept here as \<open>dir_js\<close>.
\<close>

record Cache_js =
  dir_js :: string
  ns_js :: string
  defaultTTL_js :: "real option"
  cache_js :: store

fun isExpired_js :: "(int \<Rightarrow> string) \<Rightarrow> int \<Rightarrow> int option \<Rightarrow> bool \<Rightarrow> bool_or_string" where
  "isExpired_js humanize now (Some ex) returnTTL =
     (if returnTTL then JString (humanize (ex - now)) else JBool (now > ex))"
| "isExpired_js humanize now None returnTTL = JBool False"

text \<open>
  \<open>ns = ns || "default"; dir = dir && fs.existsSync(path.dirname(dir)) ? dir : null;
  dir = path.join(os.tmpdir(), "cache", ns);\<close> The second assignment to \<open>dir\<close> does not
  look at the first. \<open>Object.assign({ ns: "default", ttl: null }, options)\<close> leaves
  \<open>ttl\<close> at \<open>null\<close> when the caller gives none.
\<close>

definition Cache_constructor_js :: "Env \<Rightarrow> CacheOptions \<Rightarrow> Cache_js" where
  "Cache_constructor_js env options =
     (let nsp = (case opt_ns options of None \<Rightarrow> ''default'' | Some n \<Rightarrow> if n \<noteq> [] then n else ''default'');
          d1 = (case opt_dir options of
                  None \<Rightarrow> None
                | Some p \<Rightarrow> if p \<noteq> [] \<and> existsSync env (dirname env p) then Some p else None);
          d2 = join env [tmpdir env, ''cache'', nsp];
          t = Number_of (case opt_ttl options of None \<Rightarrow> Null | Some n \<Rightarrow> JNumber n)
      in \<lparr>dir_js = d2, ns_js = nsp,
          defaultTTL_js = (case t of NaN \<Rightarrow> None | Num r \<Rightarrow> Some r),
          cache_js = load env nsp d2\<rparr>)"



text \<open>\<open>del(key) { return this.cache.removeKey(key); }\<close>\<close>

definition Cache_del_js :: "string \<Rightarrow> Cache_js \<Rightarrow> bool \<times> Cache_js" where
  "Cache_del_js key c = (fst (removeKey key (cache_js c)), c\<lparr>cache_js := snd (removeKey key (cache_js c))\<rparr>)"

section \<open>Expired entries\<close>

text \<open>
  What is stored under a key is expired at the clock reading \<open>now\<close> when it carries an
  \<open>expires\<close> timestamp and that timestamp lies in the past. The lemmas
  \<open>truthy_isExpired\<close> and \<open>truthy_isExpired_js\<close> show that this is what both
  \<open>isExpired\<close> functions decide.
\<close>

definition in_past :: "int \<Rightarrow> slot \<Rightarrow> bool" where
  "in_past now d = (case expires_of d of None \<Rightarrow> False | Some t \<Rightarrow> t < now)"

section \<open>Sample states\<close>

text \<open>
  Concrete inputs on which the theorems below are exercised: a stand-in for the wording of
  dayjs, a fresh cache, a store with an entry that expired at 2000, one without expiry and one
  that expires at 5000, an environment in which \<open>/var/data\<close> and \<open>/tmp\<close> exist, and the
  options of a caller who asks for a directory and of one who asks for a negative default
  TTL, and a cache whose store holds a bare \<open>null\<close>.
\<close>

definition humanize0 :: "int \<Rightarrow> string" where
  "humanize0 d = ''in a few seconds''"

definition empty_cache :: Cache where
  "empty_cache = \<lparr>dir = ''/tmp/cache/default'', ns = ''default'', defaultTTL = None, cache = []\<rparr>"

definition sample_store :: store where
  "sample_store =
     [(''a'', Envelope \<lparr>expires = Some 2000, value = VString ''1''\<rparr>),
      (''b'', Envelope \<lparr>expires = None, value = VString ''2''\<rparr>),
      (''c'', Envelope \<lparr>expires = Some 5000, value = VString ''3''\<rparr>)]"

definition sample_cache :: Cache where
  "sample_cache = \<lparr>dir = ''/tmp/cache/default'', ns = ''default'', defaultTTL = Some 60, cache = sample_store\<rparr>"

definition sample_cache_js :: Cache_js where
  "sample_cache_js = \<lparr>dir_js = ''/tmp/cache/default'', ns_js = ''default'', defaultTTL_js = Some 60, cache_js = sample_store\<rparr>"

definition sample_env :: Env where
  "sample_env =
     \<lparr>existsSync = (\<lambda>p. p = ''/var/data'' \<or> p = ''/tmp''),
      dirname = (\<lambda>p. rev (tl (dropWhile (\<lambda>ch. ch \<noteq> CHR ''/'') (rev p)))),
      join = (\<lambda>segs. foldr (\<lambda>s acc. if acc = [] then s else s @ ''/'' @ acc) segs []),
      tmpdir = ''/tmp'',
      load = (\<lambda>nsp d. [])\<rparr>"

definition sample_options :: CacheOptions where
  "sample_options = \<lparr>opt_ns = None, opt_dir = Some ''/var/data/mycache'', opt_ttl = None\<rparr>"

definition negative_ttl_options :: CacheOptions where
  "negative_ttl_options = \<lparr>opt_ns = None, opt_dir = None, opt_ttl = Some (Num (- 5))\<rparr>"


section \<open>The store operations\<close>

lemma getKey_setKey: "getKey k' (setKey k d s) = (if k' = k then Some d else getKey k' s)"
  by (simp add: getKey_def setKey_def update_conv')

lemma getKey_removeKey: "getKey k' (snd (removeKey k s)) = (if k' = k then None else getKey k' s)"
  by (simp add: getKey_def removeKey_def delete_conv')

lemma fst_removeKey: "fst (removeKey k s) = (getKey k s \<noteq> None)"
  by (simp add: getKey_def removeKey_def)

lemma wf_setKey: "wf_store s \<Longrightarrow> wf_store (setKey k d s)"
  by (simp add: wf_store_def setKey_def distinct_update)

lemma wf_removeKey: "wf_store s \<Longrightarrow> wf_store (snd (removeKey k s))"
  by (simp add: wf_store_def removeKey_def distinct_delete)

lemma wf_store_mem: "wf_store s \<Longrightarrow> ((k, d) \<in> set s) = (getKey k s = Some d)"
  by (simp add: wf_store_def getKey_def)

lemma truthy_isExpired: "truthy (isExpired h now (expires_of d) False) = in_past now d"
  by (cases "expires_of d") (simp_all add: in_past_def)

lemma isExpired_js_eq: "isExpired_js h now ex r = isExpired h now ex r"
  by (cases ex) simp_all

lemma truthy_isExpired_js: "truthy (isExpired_js h now (expires_of d) False) = in_past now d"
  by (simp add: isExpired_js_eq truthy_isExpired)

lemma in_past_Envelope: "in_past now (Envelope e) = (case expires e of None \<Rightarrow> False | Some t \<Rightarrow> t < now)"
  by (simp add: in_past_def)

lemma in_past_Raw: "\<not> in_past now (Raw x)"
  by (simp add: in_past_def)

lemma in_past_truthy: "in_past now d \<Longrightarrow> truthy_slot d"
  by (cases d) (simp_all add: in_past_def)

lemma in_past_not_nullish: "in_past now d \<Longrightarrow> \<not> nullish d"
  by (cases d) (simp_all add: in_past_def)

lemma TimeClip_ge:
  assumes le: "of_int n \<le> x"
  shows "n \<le> TimeClip x"
proof (cases "0 \<le> x")
  case True
  with le show ?thesis by (simp add: TimeClip_def le_floor_iff)
next
  case False
  have "\<lceil>(of_int n :: real)\<rceil> \<le> \<lceil>x\<rceil>" using le by (rule ceiling_mono)
  with False show ?thesis by (simp add: TimeClip_def)
qed

lemma add_seconds_ge: "0 \<le> t \<Longrightarrow> now \<le> add_seconds now t"
  unfolding add_seconds_def by (rule TimeClip_ge) simp

lemma effectiveTTL_char:
  "effectiveTTL ttl d =
     (let dflt = (case d of None \<Rightarrow> 0 | Some r \<Rightarrow> r)
      in case ttl of JNumber (Num r) \<Rightarrow> if r \<noteq> 0 then r else dflt | _ \<Rightarrow> dflt)"
  by (simp add: effectiveTTL_def to_num_def null_or_def Let_def split: jsval.splits number.splits option.splits)

lemma invalidateKey_cache:
  "getKey k' (cache (snd (invalidateKey h now k c))) =
     (case getKey k' (cache c) of None \<Rightarrow> None
      | Some d \<Rightarrow> if k' = k \<and> in_past now d then None else Some d)"
  by (auto simp: invalidateKey_def getKey_removeKey in_past_def Let_def in_past_truthy
      split: option.splits)

section \<open>The loop of \<open>all\<close>\<close>





lemma all_loop_wf: "wf_store s \<Longrightarrow> wf_store (snd (all_loop h now keys s))"
proof (induction keys arbitrary: s)
  case Nil
  then show ?case by simp
next
  case (Cons key rest)
  have a: "wf_store (snd (removeKey key (AList.delete key s)))"
    using Cons.prems by (simp add: wf_store_def removeKey_def distinct_delete)
  have b: "wf_store (AList.update key v s)" for v
    using Cons.prems by (simp add: wf_store_def distinct_update)
  show ?case using Cons.prems Cons.IH [OF a] Cons.IH [OF b]
    by (simp split: option.splits)
qed

lemma Cache_all_split:
  "Cache_all h now c =
     (case fst (all_loop h now (map fst (cache c)) (cache c)) of
        Some e \<Rightarrow> Inl e
      | None \<Rightarrow> Inr (snd (all_loop h now (map fst (cache c)) (cache c))),
      c\<lparr>cache := snd (all_loop h now (map fst (cache c)) (cache c))\<rparr>)"
  by (auto simp: Cache_all_def allEntries_def Let_def split: prod.splits option.splits)






section \<open>Reading and writing one key\<close>

lemma Cache_get_split:
  "Cache_get h now k c =
     (case getKey k (cache (snd (invalidateKey h now k c))) of
        None \<Rightarrow> VNull
      | Some d \<Rightarrow> if truthy_slot d then value_of d else VNull,
      snd (invalidateKey h now k c))"
  by (simp add: Cache_get_def Let_def)

lemma Cache_get_fst:
  "fst (Cache_get h now k c) =
     (case getKey k (cache c) of None \<Rightarrow> VNull
      | Some d \<Rightarrow> if in_past now d then VNull else if truthy_slot d then value_of d else VNull)"
  by (simp add: Cache_get_split invalidateKey_cache split: option.splits)

lemma Cache_get_cache:
  "getKey k' (cache (snd (Cache_get h now k c))) =
     (case getKey k' (cache c) of None \<Rightarrow> None
      | Some d \<Rightarrow> if k' = k \<and> in_past now d then None else Some d)"
  by (simp add: Cache_get_split invalidateKey_cache)

lemma Cache_ttl_split:
  "Cache_ttl h now k c =
     (\<lparr>ttl_key = k, ttl_expires = fst (invalidateKey h now k c)\<rparr>, snd (invalidateKey h now k c))"
  by (simp add: Cache_ttl_def split: prod.splits)

lemma Cache_ttl_cache:
  "getKey k' (cache (snd (Cache_ttl h now k c))) =
     (case getKey k' (cache c) of None \<Rightarrow> None
      | Some d \<Rightarrow> if k' = k \<and> in_past now d then None else Some d)"
  by (simp add: Cache_ttl_split invalidateKey_cache)

lemma invalidateKey_live_unchanged:
  "getKey k (cache c) = Some d \<Longrightarrow> \<not> in_past now d \<Longrightarrow> snd (invalidateKey h now k c) = c"
  by (auto simp: invalidateKey_def in_past_def Let_def split: option.splits)

lemma invalidateKey_missing_unchanged:
  "getKey k (cache c) = None \<Longrightarrow> snd (invalidateKey h now k c) = c"
  by (simp add: invalidateKey_def)

lemma invalidateKey_fst:
  "fst (invalidateKey h now k c) =
     (case getKey k (cache c) of None \<Rightarrow> None
      | Some d \<Rightarrow> (case expires_of d of None \<Rightarrow> None
          | Some t \<Rightarrow> if t < now then None else if h (t - now) \<noteq> [] then Some (h (t - now)) else None))"
proof (cases "getKey k (cache c)")
  case None
  then show ?thesis by (simp add: invalidateKey_def)
next
  case (Some d)
  show ?thesis
  proof (cases d)
    case (Envelope e)
    with Some show ?thesis by (simp add: invalidateKey_def Let_def split: option.splits)
  next
    case (Raw x)
    with Some show ?thesis by (simp add: invalidateKey_def Let_def split: option.splits)
  qed
qed

lemma Cache_set_cache:
  "getKey k' (cache (Cache_set now k v ttl c)) =
     (if k' = k
      then Some (Envelope \<lparr>expires = (if effectiveTTL ttl (defaultTTL c) \<noteq> 0
                              then Some (add_seconds now (effectiveTTL ttl (defaultTTL c))) else None),
                  value = v\<rparr>)
      else getKey k' (cache c))"
  by (simp add: Cache_set_def Let_def getKey_setKey)

lemma Cache_set_eq:
  "Cache_set now k v ttl c =
     c\<lparr>cache := setKey k (Envelope \<lparr>expires = (if effectiveTTL ttl (defaultTTL c) \<noteq> 0
                              then Some (add_seconds now (effectiveTTL ttl (defaultTTL c))) else None),
                  value = v\<rparr>) (cache c)\<rparr>"
  by (simp add: Cache_set_def Let_def)

lemma Cache_del_cache:
  "getKey k' (cache (snd (Cache_del k c))) = (if k' = k then None else getKey k' (cache c))"
  by (simp add: Cache_del_def getKey_removeKey)

lemma set_del_frame:
  "k' \<noteq> k \<Longrightarrow> getKey k' (cache (Cache_set now k v ttl c)) = getKey k' (cache c)
               \<and> getKey k' (cache (snd (Cache_del k c))) = getKey k' (cache c)"
  by (simp add: Cache_set_cache Cache_del_cache)

lemma get_ttl_change_only_expired_entries:
  "getKey k' (cache (snd (Cache_get h now k c))) =
     (case getKey k' (cache c) of None \<Rightarrow> None
      | Some d \<Rightarrow> if k' = k \<and> in_past now d then None else Some d)
   \<and> getKey k' (cache (snd (Cache_ttl h now k c))) =
     (case getKey k' (cache c) of None \<Rightarrow> None
      | Some d \<Rightarrow> if k' = k \<and> in_past now d then None else Some d)"
  by (simp add: Cache_get_cache Cache_ttl_cache)

lemma get_within_ttl_after_set:
  assumes "effectiveTTL ttl (defaultTTL c) = 0
           \<or> of_int now' \<le> of_int now + effectiveTTL ttl (defaultTTL c) * 1000"
  shows "fst (Cache_get h now' k (Cache_set now k v ttl c)) = v"
proof (cases "effectiveTTL ttl (defaultTTL c) = 0")
  case True
  then show ?thesis by (simp add: Cache_get_fst Cache_set_cache in_past_def)
next
  case False
  with assms have "now' \<le> add_seconds now (effectiveTTL ttl (defaultTTL c))"
    unfolding add_seconds_def by (simp add: TimeClip_ge)
  then show ?thesis by (simp add: Cache_get_fst Cache_set_cache in_past_def)
qed

lemma wf_store_preserved:
  assumes "wf_store (cache c)"
  shows "wf_store (cache (Cache_set now k v ttl c))"
    and "wf_store (cache (snd (Cache_del k c)))"
    and "wf_store (cache (snd (Cache_get h now k c)))"
    and "wf_store (cache (snd (Cache_ttl h now k c)))"
    and "wf_store (cache (snd (Cache_all h now c)))"
proof -
  show "wf_store (cache (Cache_set now k v ttl c))"
    using assms by (simp add: Cache_set_def Let_def wf_setKey)
  show "wf_store (cache (snd (Cache_del k c)))"
    using assms by (simp add: Cache_del_def wf_removeKey)
  have inv: "wf_store (cache (snd (invalidateKey h now k c)))"
    using assms by (simp add: invalidateKey_def Let_def wf_removeKey split: option.splits)
  then show "wf_store (cache (snd (Cache_get h now k c)))"
    by (simp add: Cache_get_split)
  from inv show "wf_store (cache (snd (Cache_ttl h now k c)))"
    by (simp add: Cache_ttl_split)
  show "wf_store (cache (snd (Cache_all h now c)))"
    using assms by (simp add: Cache_all_split all_loop_wf)
qed

section \<open>What the operations guarantee\<close>

text \<open>
  C1, as the code has it. For every key \<open>k\<close> and value \<open>v\<close>, \<open>set(k, v)\<close> followed by
  \<open>get(k)\<close> returns \<open>v\<close> whenever the configured default TTL is absent, is \<open>0\<close>, or
  has not run out between the clock reading of \<open>set\<close> and that of \<open>get\<close>. A \<open>get\<close> at
  the clock reading of \<open>set\<close> is the case of a default TTL that is not negative.
\<close>
theorem set_then_get_within_ttl:
  assumes "case defaultTTL c of None \<Rightarrow> True
           | Some d \<Rightarrow> d = 0 \<or> of_int now' \<le> of_int now + d * 1000"
  shows "fst (Cache_get h now' k (Cache_set now k v Undefined c)) = v"
proof -
  have "effectiveTTL Undefined (defaultTTL c) = 0
        \<or> of_int now' \<le> of_int now + effectiveTTL Undefined (defaultTTL c) * 1000"
    using assms by (simp add: effectiveTTL_char split: option.splits)
  then show ?thesis by (rule get_within_ttl_after_set)
qed

theorem set_then_get_within_ttl_witness:
  "defaultTTL sample_cache = Some 60
   \<and> (of_int 4000 :: real) \<le> of_int 1000 + 60 * 1000
   \<and> fst (Cache_get humanize0 4000 ''k'' (Cache_set 1000 ''k'' (VString ''v'') Undefined sample_cache))
       = VString ''v''
   \<and> fst (Cache_get humanize0 1000 ''k'' (Cache_set 1000 ''k'' (VObject 7) Undefined empty_cache))
       = VObject 7"
  using set_then_get_within_ttl [where c = sample_cache and now' = 4000 and now = 1000
          and h = humanize0 and k = "''k''" and v = "VString ''v''"]
        set_then_get_within_ttl [where c = empty_cache and now' = 1000 and now = 1000
          and h = humanize0 and k = "''k''" and v = "VObject 7"]
  by (simp add: sample_cache_def empty_cache_def)

text \<open>
  C1 as stated fails: the constructor keeps a default TTL of \<open>-5\<close> seconds as it is; with
  it \<open>set("k", "v")\<close> writes an entry that expired five seconds ago, and \<open>get("k")\<close> at
  the same clock reading removes it and returns \<open>null\<close>.
\<close>
theorem set_then_get_negative_default_counterexample:
  "defaultTTL (Cache_constructor sample_env negative_ttl_options) = Some (- 5)
   \<and> fst (Cache_get humanize0 10000 ''k''
        (Cache_set 10000 ''k'' (VString ''v'') Undefined
           (Cache_constructor sample_env negative_ttl_options))) = VNull"
proof -
  have d: "defaultTTL (Cache_constructor sample_env negative_ttl_options) = Some (- 5)"
    by (simp add: Cache_constructor_def negative_ttl_options_def option_number_def Let_def)
  have e: "effectiveTTL Undefined (Some (- 5)) = - 5"
    by (simp add: effectiveTTL_char)
  have a: "add_seconds 10000 (- 5) = 5000"
    by (simp add: add_seconds_def TimeClip_def)
  show ?thesis
    by (simp add: d e a Cache_get_fst Cache_set_cache in_past_def)
qed

text \<open>
  C2. If the entry stored under \<open>k\<close> has an \<open>expires\<close> timestamp in the past when
  \<open>get(k)\<close> is called, \<open>get(k)\<close> removes the key from the store and returns \<open>null\<close>;
  if there is no entry under \<open>k\<close>, \<open>get(k)\<close> returns \<open>null\<close>.
\<close>
theorem get_expired_or_missing:
  "(getKey k (cache c) = Some (Envelope e) \<and> expires e = Some t \<and> t < now \<longrightarrow>
      fst (Cache_get h now k c) = VNull \<and> getKey k (cache (snd (Cache_get h now k c))) = None)
   \<and> (getKey k (cache c) = None \<longrightarrow> fst (Cache_get h now k c) = VNull)"
  by (simp add: Cache_get_fst Cache_get_cache in_past_def)

theorem get_expired_or_missing_witness:
  "getKey ''a'' (cache sample_cache) = Some (Envelope \<lparr>expires = Some 2000, value = VString ''1''\<rparr>)
   \<and> (2000::int) < 3000
   \<and> fst (Cache_get humanize0 3000 ''a'' sample_cache) = VNull
   \<and> getKey ''a'' (cache (snd (Cache_get humanize0 3000 ''a'' sample_cache))) = None
   \<and> getKey ''z'' (cache sample_cache) = None
   \<and> fst (Cache_get humanize0 3000 ''z'' sample_cache) = VNull"
  using get_expired_or_missing [of "''a''" sample_cache "\<lparr>expires = Some 2000, value = VString ''1''\<rparr>"
          2000 3000 humanize0]
        get_expired_or_missing [of "''z''" sample_cache "\<lparr>expires = Some 2000, value = VString ''1''\<rparr>"
          2000 3000 humanize0]
  by (simp add: getKey_def sample_cache_def sample_store_def)

text \<open>
  C9. The expiry boundary is strict. An entry whose \<open>expires\<close> timestamp equals the clock
  reading of a read is not expired: \<open>get\<close> returns its value and the cache is unchanged.
  The entry is expired exactly when the clock reading is strictly after \<open>expires\<close>; then
  \<open>get\<close> returns \<open>null\<close> and the key is gone. Both \<open>isExpired\<close> functions decide the
  same.
\<close>
theorem expiry_boundary_is_strict:
  assumes "getKey k (cache c) = Some (Envelope e)" and "expires e = Some t"
  shows "(truthy (isExpired h now (expires e) False) \<longleftrightarrow> t < now)
       \<and> (truthy (isExpired_js h now (expires e) False) \<longleftrightarrow> t < now)
       \<and> (now = t \<longrightarrow> Cache_get h now k c = (value e, c))
       \<and> (now \<le> t \<longrightarrow> Cache_get h now k c = (value e, c))
       \<and> (t < now \<longrightarrow> fst (Cache_get h now k c) = VNull
              \<and> getKey k (cache (snd (Cache_get h now k c))) = None)"
proof -
  have live: "Cache_get h now k c = (value e, c)" if "now \<le> t"
  proof -
    have np: "\<not> in_past now (Envelope e)" using assms(2) that by (simp add: in_past_def)
    have "snd (invalidateKey h now k c) = c"
      using assms(1) np by (rule invalidateKey_live_unchanged)
    then show ?thesis using assms(1) by (simp add: Cache_get_split)
  qed
  have dead: "fst (Cache_get h now k c) = VNull \<and> getKey k (cache (snd (Cache_get h now k c))) = None"
    if "t < now"
    using assms that by (simp add: Cache_get_fst Cache_get_cache in_past_def)
  show ?thesis using assms(2) live dead by auto
qed

theorem expiry_boundary_is_strict_witness:
  "getKey ''a'' (cache sample_cache) = Some (Envelope \<lparr>expires = Some 2000, value = VString ''1''\<rparr>)
   \<and> \<not> truthy (isExpired humanize0 2000 (Some 2000) False)
   \<and> \<not> truthy (isExpired_js humanize0 2000 (Some 2000) False)
   \<and> Cache_get humanize0 2000 ''a'' sample_cache = (VString ''1'', sample_cache)
   \<and> fst (Cache_get humanize0 2001 ''a'' sample_cache) = VNull"
  using expiry_boundary_is_strict [of "''a''" sample_cache "\<lparr>expires = Some 2000, value = VString ''1''\<rparr>"
          2000 humanize0 2000]
        expiry_boundary_is_strict [of "''a''" sample_cache "\<lparr>expires = Some 2000, value = VString ''1''\<rparr>"
          2000 humanize0 2001]
  by (simp add: getKey_def sample_cache_def sample_store_def)

text \<open>
  C3, as the code has it. The effective TTL of \<open>set(k, v, ttlSeconds)\<close> is \<open>ttlSeconds\<close>
  whenever that is a number other than \<open>NaN\<close> and \<open>0\<close>, negative numbers included;
  otherwise (absent, \<open>null\<close>, \<open>NaN\<close> or \<open>0\<close>) it is the configured default TTL if that
  is a number other than \<open>0\<close>; otherwise there is no expiry. The entry stored under \<open>k\<close>
  has no \<open>expires\<close> when the effective TTL is \<open>0\<close> and the clock reading plus that many
  seconds otherwise. \<open>effectiveTTL\<close> and \<open>Cache_set\<close> are total: no TTL input raises an error.
\<close>
theorem effective_ttl_rule:
  "effectiveTTL ttl d =
     (case ttl of
        JNumber (Num r) \<Rightarrow> if r \<noteq> 0 then r else (case d of None \<Rightarrow> 0 | Some x \<Rightarrow> x)
      | JNumber NaN \<Rightarrow> (case d of None \<Rightarrow> 0 | Some x \<Rightarrow> x)
      | Undefined \<Rightarrow> (case d of None \<Rightarrow> 0 | Some x \<Rightarrow> x)
      | Null \<Rightarrow> (case d of None \<Rightarrow> 0 | Some x \<Rightarrow> x))
   \<and> getKey k (cache (Cache_set now k v ttl c)) =
       Some (Envelope \<lparr>expires = (if effectiveTTL ttl (defaultTTL c) = 0 then None
                         else Some (add_seconds now (effectiveTTL ttl (defaultTTL c)))),
             value = v\<rparr>)"
  by (simp add: effectiveTTL_char Cache_set_cache split: jsval.splits number.splits)

text \<open>
  C3 as stated fails: with a default TTL of 60 seconds, \<open>set(k, v, 0)\<close> does not take
  \<open>0\<close> as the effective TTL but the default, so the entry written at 1000 expires at
  61000; and \<open>set(k, v, -5)\<close> does not fall back to the default but takes \<open>-5\<close>, so the
  entry written at 10000 expires at 5000.
\<close>
theorem set_ttl_zero_or_negative_counterexample:
  "effectiveTTL (JNumber (Num 0)) (Some 60) = 60
   \<and> getKey ''k'' (cache (Cache_set 1000 ''k'' (VString ''v'') (JNumber (Num 0)) sample_cache))
       = Some (Envelope \<lparr>expires = Some 61000, value = VString ''v''\<rparr>)
   \<and> effectiveTTL (JNumber (Num (- 5))) (Some 60) = - 5
   \<and> getKey ''k'' (cache (Cache_set 10000 ''k'' (VString ''v'') (JNumber (Num (- 5))) sample_cache))
       = Some (Envelope \<lparr>expires = Some 5000, value = VString ''v''\<rparr>)"
  by (simp add: effectiveTTL_char Cache_set_cache sample_cache_def add_seconds_def TimeClip_def)

text \<open>
  C5, as the code has it. \<open>ttl(k)\<close> returns \<open>{key: k, expires}\<close>. \<open>expires\<close> is
  \<open>null\<close> exactly when \<open>k\<close> does not exist, has no \<open>expires\<close> timestamp, or has expired;
  in the expired case the key is removed from the store, as \<open>get\<close> does. Otherwise
  \<open>expires\<close> is the relative-time string that dayjs gives for the time remaining, and the
  cache is unchanged. The relative-time wording is never the empty string.
\<close>
theorem ttl_result_rule:
  assumes "\<forall>d. h d \<noteq> []"
  shows "ttl_key (fst (Cache_ttl h now k c)) = k
       \<and> (ttl_expires (fst (Cache_ttl h now k c)) = None \<longleftrightarrow>
            (case getKey k (cache c) of None \<Rightarrow> True
             | Some d \<Rightarrow> (case expires_of d of None \<Rightarrow> True | Some t \<Rightarrow> t < now)))
       \<and> (getKey k (cache c) = Some (Envelope e) \<and> expires e = Some t \<and> t < now \<longrightarrow>
            getKey k (cache (snd (Cache_ttl h now k c))) = None)
       \<and> (getKey k (cache c) = Some (Envelope e) \<and> expires e = Some t \<and> now \<le> t \<longrightarrow>
            Cache_ttl h now k c = (\<lparr>ttl_key = k, ttl_expires = Some (h (t - now))\<rparr>, c))"
proof -
  have a: "ttl_key (fst (Cache_ttl h now k c)) = k" by (simp add: Cache_ttl_split)
  have b: "ttl_expires (fst (Cache_ttl h now k c)) = None \<longleftrightarrow>
            (case getKey k (cache c) of None \<Rightarrow> True
             | Some d \<Rightarrow> (case expires_of d of None \<Rightarrow> True | Some t \<Rightarrow> t < now))"
    using assms by (simp add: Cache_ttl_split invalidateKey_fst split: option.splits)
  have c: "getKey k (cache (snd (Cache_ttl h now k c))) = None"
    if "getKey k (cache c) = Some (Envelope e)" "expires e = Some t" "t < now"
    using that by (simp add: Cache_ttl_cache in_past_def)
  have d: "Cache_ttl h now k c = (\<lparr>ttl_key = k, ttl_expires = Some (h (t - now))\<rparr>, c)"
    if "getKey k (cache c) = Some (Envelope e)" "expires e = Some t" "now \<le> t"
  proof -
    have "\<not> in_past now (Envelope e)" using that by (simp add: in_past_def)
    then have "snd (invalidateKey h now k c) = c"
      using that(1) invalidateKey_live_unchanged by blast
    moreover have "fst (invalidateKey h now k c) = Some (h (t - now))"
      using that assms by (simp add: invalidateKey_fst)
    ultimately show ?thesis by (simp add: Cache_ttl_split)
  qed
  show ?thesis using a b c d by blast
qed

theorem ttl_result_rule_witness:
  "humanize0 2000 \<noteq> []
   \<and> ttl_key (fst (Cache_ttl humanize0 3000 ''a'' sample_cache)) = ''a''
   \<and> ttl_expires (fst (Cache_ttl humanize0 3000 ''a'' sample_cache)) = None
   \<and> getKey ''a'' (cache sample_cache) = Some (Envelope \<lparr>expires = Some 2000, value = VString ''1''\<rparr>)
   \<and> (2000::int) < 3000
   \<and> getKey ''a'' (cache (snd (Cache_ttl humanize0 3000 ''a'' sample_cache))) = None
   \<and> getKey ''c'' (cache sample_cache) = Some (Envelope \<lparr>expires = Some 5000, value = VString ''3''\<rparr>)
   \<and> (3000::int) \<le> 5000
   \<and> Cache_ttl humanize0 3000 ''c'' sample_cache
       = (\<lparr>ttl_key = ''c'', ttl_expires = Some ''in a few seconds''\<rparr>, sample_cache)"
  using ttl_result_rule [of humanize0 3000 "''a''" sample_cache "\<lparr>expires = Some 2000, value = VString ''1''\<rparr>" 2000]
        ttl_result_rule [of humanize0 3000 "''c''" sample_cache "\<lparr>expires = Some 5000, value = VString ''3''\<rparr>" 5000]
  by (simp add: humanize0_def getKey_def sample_cache_def sample_store_def)

text \<open>
  C5 as stated fails: the key \<open>b\<close> exists and has not expired (it was stored without TTL),
  and \<open>ttl("b")\<close> still returns \<open>expires: null\<close>.
\<close>
theorem ttl_of_key_without_expiry_counterexample:
  "getKey ''b'' (cache sample_cache) = Some (Envelope \<lparr>expires = None, value = VString ''2''\<rparr>)
   \<and> Cache_ttl humanize0 3000 ''b'' sample_cache = (\<lparr>ttl_key = ''b'', ttl_expires = None\<rparr>, sample_cache)"
  by (simp add: Cache_ttl_split invalidateKey_def getKey_def sample_cache_def sample_store_def)

section \<open>\<open>all\<close>, and where the two modules part\<close>


lemma sample_all: 
  "Cache_all humanize0 3000 sample_cache =
     (Inr [(''b'', Raw (VString ''2'')), (''c'', Raw (VString ''3''))],
      sample_cache\<lparr>cache := [(''b'', Raw (VString ''2'')), (''c'', Raw (VString ''3''))]\<rparr>)"
  by (simp add: Cache_all_split sample_cache_def sample_store_def removeKey_def)



text \<open>
  C8 on its own scenario. On a fresh cache without default TTL, after \<open>set("p","1")\<close> and
  \<open>set("q","2")\<close> the first \<open>all()\<close> returns \<open>{p: "1", q: "2"}\<close>. It has then written the
  raw values over the entries in the store, so after \<open>del("p")\<close> the second \<open>all()\<close>
  reads \<open>"2".value\<close> and returns \<open>{q: undefined}\<close>, not \<open>{q: "2"}\<close>. That \<open>set\<close> and
  \<open>del\<close> leave every other key alone is lemma \<open>set_del_frame\<close>.
\<close>
theorem second_all_returns_undefined:
  "fst (Cache_all humanize0 1002
          (Cache_set 1001 ''q'' (VString ''2'') Undefined
             (Cache_set 1000 ''p'' (VString ''1'') Undefined empty_cache)))
     = Inr [(''p'', Raw (VString ''1'')), (''q'', Raw (VString ''2''))]
   \<and> fst (Cache_all humanize0 1004 (snd (Cache_del ''p'' (snd (Cache_all humanize0 1002
          (Cache_set 1001 ''q'' (VString ''2'') Undefined
             (Cache_set 1000 ''p'' (VString ''1'') Undefined empty_cache)))))))
     = Inr [(''q'', Raw VUndefined)]"
  by (simp add: Cache_all_split Cache_set_eq Cache_del_def setKey_def removeKey_def
      effectiveTTL_char empty_cache_def)

text \<open>
  C10 on \<open>all\<close>. The key \<open>b\<close> holds an entry without \<open>expires\<close>. \<open>all()\<close> replaces
  that entry in the store by the bare string \<open>"2"\<close>; \<open>get("b")\<close>, which returned \<open>"2"\<close>
  before, returns \<open>undefined\<close> afterwards. \<open>get\<close> and \<open>ttl\<close> themselves change nothing but
  an expired entry under the key they are asked for (lemma
  \<open>get_ttl_change_only_expired_entries\<close>).
\<close>
theorem all_overwrites_live_entries:
  "getKey ''b'' (cache sample_cache) = Some (Envelope \<lparr>expires = None, value = VString ''2''\<rparr>)
   \<and> \<not> in_past 3000 (Envelope \<lparr>expires = None, value = VString ''2''\<rparr>)
   \<and> getKey ''b'' (cache (snd (Cache_all humanize0 3000 sample_cache))) = Some (Raw (VString ''2''))
   \<and> fst (Cache_get humanize0 3000 ''b'' sample_cache) = VString ''2''
   \<and> fst (Cache_get humanize0 3000 ''b'' (snd (Cache_all humanize0 3000 sample_cache))) = VUndefined"
proof -
  have s: "getKey ''b'' (cache sample_cache) = Some (Envelope \<lparr>expires = None, value = VString ''2''\<rparr>)"
    by (simp add: getKey_def sample_cache_def sample_store_def)
  have a: "getKey ''b'' (cache (snd (Cache_all humanize0 3000 sample_cache))) = Some (Raw (VString ''2''))"
    by (simp add: sample_all getKey_def)
  have np: "\<not> in_past 3000 (Envelope \<lparr>expires = None, value = VString ''2''\<rparr>)"
    by (simp add: in_past_def)
  have g0: "fst (Cache_get humanize0 3000 ''b'' sample_cache) = VString ''2''"
    by (simp add: Cache_get_fst s np)
  have g1: "fst (Cache_get humanize0 3000 ''b'' (snd (Cache_all humanize0 3000 sample_cache))) = VUndefined"
    by (simp add: Cache_get_fst a in_past_def)
  show ?thesis using s a np g0 g1 by simp
qed

lemma third_all_throws:
  "fst (Cache_all humanize0 1005 (snd (Cache_all humanize0 1004 (snd (Cache_all humanize0 1002
          (Cache_set 1001 ''q'' (VString ''2'') Undefined empty_cache)))))) = Inl TypeError"
  by (simp add: Cache_all_split Cache_set_eq setKey_def removeKey_def
      effectiveTTL_char empty_cache_def)

lemma Cache_del_js_result:
  "fst (Cache_del_js k c) = (getKey k (cache_js c) \<noteq> None)
   \<and> getKey k' (cache_js (snd (Cache_del_js k c))) = (if k' = k then None else getKey k' (cache_js c))"
  by (simp add: Cache_del_js_def fst_removeKey getKey_removeKey)

lemma Cache_del_result: "fst (Cache_del k c) = None"
  by (simp add: Cache_del_def)

text \<open>
  C6 on \<open>src/index.ts\<close>. \<open>del\<close> removes the key \<open>b\<close>, which was present, and returns
  \<open>undefined\<close> rather than \<open>true\<close>; \<open>del\<close> of the older module returns \<open>true\<close> for the
  key that was present and \<open>false\<close> for a key that was not.
\<close>
theorem del_returns_no_boolean:
  "getKey ''b'' (cache sample_cache) = Some (Envelope \<lparr>expires = None, value = VString ''2''\<rparr>)
   \<and> fst (Cache_del ''b'' sample_cache) = None
   \<and> getKey ''b'' (cache (snd (Cache_del ''b'' sample_cache))) = None
   \<and> fst (Cache_del_js ''b'' sample_cache_js) = True
   \<and> fst (Cache_del_js ''z'' sample_cache_js) = False"
  by (simp add: Cache_del_def Cache_del_js_def removeKey_def getKey_def sample_cache_js_def
      sample_cache_def sample_store_def)

lemma Cache_constructor_dir:
  "dir (Cache_constructor env options) =
     (case opt_dir options of
        None \<Rightarrow> join env [tmpdir env, ''cache'', ns (Cache_constructor env options)]
      | Some p \<Rightarrow> if p \<noteq> [] \<and> existsSync env (dirname env p) then p
                  else join env [tmpdir env, ''cache'', ns (Cache_constructor env options)])
   \<and> ns (Cache_constructor env options) = (case opt_ns options of None \<Rightarrow> ''default'' | Some n \<Rightarrow> n)
   \<and> cache (Cache_constructor env options)
       = load env (ns (Cache_constructor env options)) (dir (Cache_constructor env options))"
  by (simp add: Cache_constructor_def cacheDir_def Let_def split: option.splits)

lemma Cache_constructor_js_dir:
  "dir_js (Cache_constructor_js env options) = join env [tmpdir env, ''cache'', ns_js (Cache_constructor_js env options)]
   \<and> cache_js (Cache_constructor_js env options)
       = load env (ns_js (Cache_constructor_js env options))
           (join env [tmpdir env, ''cache'', ns_js (Cache_constructor_js env options)])"
  by (simp add: Cache_constructor_js_def Let_def)

text \<open>
  C7 on the older module. The caller supplies \<open>/var/data/mycache\<close>, whose parent exists;
  the constructor of the older module loads the store from \<open>/tmp/cache/default\<close> all the
  same, while the constructor of \<open>src/index.ts\<close> uses the supplied directory.
\<close>
theorem constructor_js_ignores_dir:
  "opt_dir sample_options = Some ''/var/data/mycache''
   \<and> existsSync sample_env (dirname sample_env ''/var/data/mycache'')
   \<and> dir_js (Cache_constructor_js sample_env sample_options) = ''/tmp/cache/default''
   \<and> dir (Cache_constructor sample_env sample_options) = ''/var/data/mycache''"
proof -
  have d: "dirname sample_env ''/var/data/mycache'' = ''/var/data''"
    by (simp add: sample_env_def)
  have e: "existsSync sample_env ''/var/data''"
    by (simp add: sample_env_def)
  have j: "join sample_env [tmpdir sample_env, ''cache'', ''default''] = ''/tmp/cache/default''"
    by (simp add: sample_env_def)
  have n: "ns_js (Cache_constructor_js sample_env sample_options) = ''default''"
    by (simp add: Cache_constructor_js_def sample_options_def Let_def)
  have o: "opt_dir sample_options = Some ''/var/data/mycache''"
    by (simp add: sample_options_def)
  have js: "dir_js (Cache_constructor_js sample_env sample_options) = ''/tmp/cache/default''"
    using Cache_constructor_js_dir [of sample_env sample_options] by (simp only: n j)
  have ts: "dir (Cache_constructor sample_env sample_options) = ''/var/data/mycache''"
    using Cache_constructor_dir [of sample_env sample_options] by (simp add: o d e)
  show ?thesis using d e o js ts by simp
qed

end
